theory Spec2Isabelle
  imports Main "HOL-Library.Word"
begin

unbundle bit_operations_syntax

section \<open>Errors\<close>

text \<open>
  \<^verbatim>\<open>McpServerError\<close> extends the toolkit error: its message is the given text prefixed
  with \<^verbatim>\<open>MCP Server: \<close> and its code is \<^verbatim>\<open>code || 'McpServerError'\<close>. Anything else that
  can reject an operation (an exception thrown by the transport itself) is \<open>Thrown\<close>.
\<close>

datatype error =
    McpServerError (err_message: string) (err_code: string)
  | Thrown string

definition new_McpServerError :: "string \<Rightarrow> string option \<Rightarrow> error" where
  "new_McpServerError msg c =
     McpServerError (''MCP Server: '' @ msg)
       (case c of None \<Rightarrow> ''McpServerError''
                | Some k \<Rightarrow> if k = [] then ''McpServerError'' else k)"

section \<open>The server object\<close>

text \<open>
  What \<^verbatim>\<open>http.Server.address()\<close> returns: \<^verbatim>\<open>null\<close> (here \<open>None\<close>), a pipe name, or an
  address record, of which only the port is read.
\<close>

datatype address = PipeName string | AddressInfo nat

record http_server =
  listening :: bool
  address :: "address option"

text \<open>
  The effects on the outside world, in program order: \<^verbatim>\<open>httpServer.listen(port, '127.0.0.1')\<close>,
  \<^verbatim>\<open>connection.destroy()\<close>, \<^verbatim>\<open>httpServer.close(cb)\<close> and the assignment
  \<^verbatim>\<open>this._closed = true\<close>.
\<close>

datatype event = Listen nat | Destroy nat | ServerClose | MarkClosed

text \<open>
  The fields of \<^verbatim>\<open>AwsMcpServer\<close>. Sockets are identified by numbers. \<open>priv_closed\<close> is the
  private field \<^verbatim>\<open>_closed\<close>; \<open>trace\<close> is the log of effects, which the class does not hold.
\<close>

record server =
  httpServer :: "http_server option"
  connections :: "nat list"
  priv_closed :: bool
  port :: nat
  trace :: "event list"

text \<open>The state the private constructor leaves: the field initialisers of the class.\<close>

definition new_server :: server where
  "new_server = \<lparr>httpServer = None, connections = [], priv_closed = False, port = 3000,
                 trace = []\<rparr>"

text \<open>\<^verbatim>\<open>getInstance\<close>: the static field holds the one instance, created on first use.\<close>

definition getInstance :: "server option \<Rightarrow> server \<times> server option" where
  "getInstance inst =
     (case inst of None \<Rightarrow> (new_server, Some new_server) | Some s \<Rightarrow> (s, Some s))"

text \<open>\<^verbatim>\<open>this.httpServer?.listening\<close>, read as a condition.\<close>

definition is_listening :: "server \<Rightarrow> bool" where
  "is_listening s = (case httpServer s of None \<Rightarrow> False | Some h \<Rightarrow> listening h)"

text \<open>
  What the transport does with \<^verbatim>\<open>listen\<close>: it throws at once (a port out of range), or
  emits \<^verbatim>\<open>error\<close> (the bind failed), or emits \<^verbatim>\<open>listening\<close>, after which \<^verbatim>\<open>address()\<close>
  returns the given value.
\<close>

datatype listen_outcome =
    ListenThrows string
  | ErrorEvent string
  | ListeningEvent "address option"

text \<open>
  \<^verbatim>\<open>start(port?)\<close>, from the call to the settling of its promise. The port is a
  non-negative integer or omitted; \<^verbatim>\<open>port || this.port\<close> takes the stored port for an
  omitted port and for 0.
\<close>

definition start :: "server \<Rightarrow> nat option \<Rightarrow> listen_outcome \<Rightarrow> (error + unit) \<times> server" where
  "start s p out =
     (if is_listening s then (Inl (new_McpServerError ''Server already started'' None), s)
      else
        let q = (case p of None \<Rightarrow> port s | Some n \<Rightarrow> if n = 0 then port s else n);
            s1 = s\<lparr>port := q,
                   httpServer := Some \<lparr>listening = False, address = None\<rparr>,
                   trace := trace s @ [Listen q]\<rparr>
        in case out of
             ListenThrows m \<Rightarrow> (Inl (Thrown m), s1)
           | ErrorEvent m \<Rightarrow> (Inl (new_McpServerError (''Server failed: '' @ m) None), s1)
           | ListeningEvent a \<Rightarrow>
               let s2 = s1\<lparr>httpServer := Some \<lparr>listening = True, address = a\<rparr>\<rparr>
               in (case a of
                     None \<Rightarrow> (Inl (new_McpServerError ''Failed to get server address'' None), s2)
                   | Some _ \<Rightarrow> (Inr (), s2)))"

text \<open>
  The \<^verbatim>\<open>connection\<close> handler that \<^verbatim>\<open>start\<close> registers pushes the socket; the transport
  emits the event only while it is listening.
\<close>

definition on_connection :: "server \<Rightarrow> nat \<Rightarrow> server" where
  "on_connection s c = s\<lparr>connections := connections s @ [c]\<rparr>"

definition accept :: "server \<Rightarrow> nat \<Rightarrow> server" where
  "accept s c = (if is_listening s then on_connection s c else s)"

text \<open>The loop \<^verbatim>\<open>for (const connection of this.connections) connection.destroy()\<close>.\<close>

fun destroy_all :: "nat list \<Rightarrow> server \<Rightarrow> server" where
  "destroy_all [] s = s"
| "destroy_all (c # cs) s = destroy_all cs (s\<lparr>trace := trace s @ [Destroy c]\<rparr>)"

text \<open>
  \<^verbatim>\<open>httpServer.close(cb)\<close> releases the listening handle: the server no longer listens
  and has no address, whatever the callback is given.
\<close>

definition http_close :: "server \<Rightarrow> server" where
  "http_close s =
     s\<lparr>httpServer := (case httpServer s of None \<Rightarrow> None
                        | Some h \<Rightarrow> Some (h\<lparr>listening := False, address := None\<rparr>)),
       trace := trace s @ [ServerClose]\<rparr>"

text \<open>
  \<^verbatim>\<open>close()\<close>, from the call to the settling of its promise; \<open>err\<close> is what the
  transport passes to the callback of \<^verbatim>\<open>httpServer.close\<close> (\<open>None\<close>: no error).
\<close>

definition close :: "server \<Rightarrow> string option \<Rightarrow> (error + unit) \<times> server" where
  "close s err =
     (if priv_closed s then (Inr (), s)
      else if \<not> is_listening s then (Inl (new_McpServerError ''Server not started'' None), s)
      else
        let s1 = destroy_all (connections s) s;
            s2 = http_close s1
        in case err of
             Some m \<Rightarrow> (Inl (new_McpServerError (''Failed to close server: '' @ m) None), s2)
           | None \<Rightarrow> (Inr (), s2\<lparr>priv_closed := True, trace := trace s2 @ [MarkClosed]\<rparr>))"

text \<open>The getter \<^verbatim>\<open>closed\<close>, \<^verbatim>\<open>getAddress()\<close> and \<^verbatim>\<open>getPort()\<close>.\<close>

definition closed :: "server \<Rightarrow> bool" where
  "closed s = priv_closed s"

definition getAddress :: "server \<Rightarrow> address option" where
  "getAddress s = (case httpServer s of None \<Rightarrow> None | Some h \<Rightarrow> address h)"

definition getPort :: "server \<Rightarrow> nat" where
  "getPort s = (case getAddress s of Some (AddressInfo n) \<Rightarrow> n | _ \<Rightarrow> port s)"

section \<open>The tool handlers\<close>

text \<open>
  Values decoded from JSON. A number is the 64 bits of its IEEE 754 double; an object is
  the list of its own properties, each name once.
\<close>

datatype jsvalue =
    JNull
  | JBool bool
  | JNum "64 word"
  | JStr string
  | JArr "jsvalue list"
  | JObj "(string \<times> jsvalue) list"

text \<open>
  A double is NaN when its exponent bits are all set and its fraction is not zero, and a
  zero (of either sign) when all bits but the sign are clear.
\<close>

definition is_nan :: "64 word \<Rightarrow> bool" where
  "is_nan w =
     (if w AND 0x7FF0000000000000 = 0x7FF0000000000000
      then w AND 0x000FFFFFFFFFFFFF \<noteq> 0 else False)"

definition is_zero :: "64 word \<Rightarrow> bool" where
  "is_zero w = (w AND 0x7FFFFFFFFFFFFFFF = 0)"

text \<open>
  JavaScript's conversion to a boolean, which \<^verbatim>\<open>||\<close> applies to its left operand: false
  for \<^verbatim>\<open>null\<close>, \<^verbatim>\<open>false\<close>, both zeros, NaN and the empty string.
\<close>

fun truthy :: "jsvalue \<Rightarrow> bool" where
  "truthy JNull = False"
| "truthy (JBool b) = b"
| "truthy (JNum w) = (if is_zero w then False else if is_nan w then False else True)"
| "truthy (JStr s) = (s \<noteq> [])"
| "truthy (JArr xs) = True"
| "truthy (JObj kvs) = True"

text \<open>
  \<^verbatim>\<open>(args as any)?.message\<close>: \<open>None\<close> is \<^verbatim>\<open>undefined\<close>. The optional chain gives
  \<^verbatim>\<open>undefined\<close> for missing and \<^verbatim>\<open>null\<close> arguments; only an object can own a property
  of that name.
\<close>

fun get_message :: "jsvalue option \<Rightarrow> jsvalue option" where
  "get_message None = None"
| "get_message (Some (JObj kvs)) = map_of kvs ''message''"
| "get_message (Some v) = None"

text \<open>The catalog that the \<^verbatim>\<open>list_tools\<close> handler returns.\<close>

record property_schema =
  prop_type :: string
  prop_description :: string
  prop_default :: jsvalue

record input_schema =
  schema_type :: string
  properties :: "(string \<times> property_schema) list"
  additionalProperties :: bool

record tool =
  tool_name :: string
  tool_description :: string
  inputSchema :: input_schema

definition list_tools :: "tool list" where
  "list_tools =
     [\<lparr>tool_name = ''load_chat_session'',
       tool_description = ''Opens a new chat session with a greeting message'',
       inputSchema =
         \<lparr>schema_type = ''object'',
          properties =
            [(''message'',
              \<lparr>prop_type = ''string'',
               prop_description = ''Optional custom message to start the chat session with'',
               prop_default = JStr ''Hello world''\<rparr>)],
          additionalProperties = False\<rparr>\<rparr>]"

text \<open>One entry of the \<^verbatim>\<open>content\<close> array of a tool result.\<close>

datatype content_item = ContentItem (item_type: string) (item_text: string)

text \<open>
  The interpolation \<^verbatim>\<open>${message}\<close>: a string stands for itself; the conversion of any
  other value is a parameter, \<open>Inl m\<close> when it throws an error with message \<open>m\<close>.
\<close>

definition interpolate :: "(jsvalue \<Rightarrow> string + string) \<Rightarrow> jsvalue \<Rightarrow> string + string" where
  "interpolate conv v = (case v of JStr s \<Rightarrow> Inr s | _ \<Rightarrow> conv v)"

text \<open>
  The \<^verbatim>\<open>call_tool\<close> handler. \<open>loadChatSession\<close> is the private method that opens the
  chat: given the message it resolves (\<open>None\<close>) or rejects with an error whose message is
  \<open>m\<close> (\<open>Some m\<close>). The result pairs the arguments of the calls made to it, in order, with
  what the handler returns or throws.
\<close>

definition call_tool ::
  "(jsvalue \<Rightarrow> string option) \<Rightarrow> (jsvalue \<Rightarrow> string + string) \<Rightarrow> string \<Rightarrow> jsvalue option
     \<Rightarrow> jsvalue list \<times> (error + content_item list)" where
  "call_tool loadChatSession conv name args =
     (if name = ''load_chat_session'' then
        let message = (case get_message args of
                         None \<Rightarrow> JStr ''Hello world''
                       | Some v \<Rightarrow> if truthy v then v else JStr ''Hello world'')
        in case loadChatSession message of
             Some m \<Rightarrow>
               ([message],
                Inl (new_McpServerError (''Failed to load chat session: '' @ m) None))
           | None \<Rightarrow>
               (case interpolate conv message of
                  Inl m \<Rightarrow>
                    ([message],
                     Inl (new_McpServerError (''Failed to load chat session: '' @ m) None))
                | Inr txt \<Rightarrow>
                    ([message],
                     Inr [ContentItem ''text''
                            (''Chat session opened with message: '' @ [CHR 0x22] @ txt @ [CHR 0x22])]))
      else ([], Inl (new_McpServerError (''Unknown tool: '' @ name) None)))"

section \<open>Sequences of calls\<close>

text \<open>
  One call on the server object together with what the transport answers, and the state
  after a sequence of such calls.
\<close>

datatype call =
    is_Start: Start "nat option" listen_outcome
  | is_Close: Close "string option"
  | is_Accept: Accept nat

fun step :: "server \<Rightarrow> call \<Rightarrow> server" where
  "step s (Start p out) = snd (start s p out)"
| "step s (Close err) = snd (close s err)"
| "step s (Accept c) = accept s c"

definition run :: "server \<Rightarrow> call list \<Rightarrow> server" where
  "run s cs = foldl step s cs"

abbreviation bound :: "nat \<Rightarrow> listen_outcome" where
  "bound n \<equiv> ListeningEvent (Some (AddressInfo n))"

section \<open>Facts about the operations\<close>

lemmas server_defs = start_def close_def accept_def on_connection_def http_close_def
  is_listening_def closed_def getPort_def getAddress_def new_McpServerError_def new_server_def

text \<open>The destroy loop logs one \<open>Destroy\<close> per tracked socket, in order, and nothing else.\<close>

lemma destroy_all_trace: "trace (destroy_all cs s) = trace s @ map Destroy cs"
  by (induction cs arbitrary: s) simp_all

lemma destroy_all_fields:
  "httpServer (destroy_all cs s) = httpServer s"
  "connections (destroy_all cs s) = connections s"
  "priv_closed (destroy_all cs s) = priv_closed s"
  "port (destroy_all cs s) = port s"
  by (induction cs arbitrary: s) simp_all

lemma start_listening:
  "is_listening s \<Longrightarrow> start s p out =
     (Inl (McpServerError ''MCP Server: Server already started'' ''McpServerError''), s)"
  by (simp add: start_def new_McpServerError_def)

lemma start_ok_listening: "fst (start s p out) = Inr () \<Longrightarrow> is_listening (snd (start s p out))"
  by (auto simp: start_def Let_def is_listening_def
      split: listen_outcome.splits option.splits if_splits)

lemma start_keeps_closed: "priv_closed (snd (start s p out)) = priv_closed s"
  by (auto simp: start_def Let_def split: listen_outcome.splits option.splits)

lemma close_ok_closed: "fst (close s e) = Inr () \<Longrightarrow> priv_closed (snd (close s e))"
  by (auto simp: close_def Let_def split: if_splits option.splits)

lemma close_connections: "connections (snd (close s e)) = connections s"
  by (simp add: close_def http_close_def destroy_all_fields Let_def split: option.splits)

lemma start_connections: "connections (snd (start s p out)) = connections s"
  by (simp add: start_def Let_def split: option.splits listen_outcome.splits)

text \<open>
  A server that listens while its flag \<^verbatim>\<open>_closed\<close> is set stays so under every call:
  \<^verbatim>\<open>start\<close> is refused, \<^verbatim>\<open>close\<close> returns at its first test, a new connection is only
  pushed.
\<close>

lemma step_stuck:
  "is_listening s \<Longrightarrow> priv_closed s \<Longrightarrow>
     is_listening (step s c) \<and> priv_closed (step s c) \<and> trace (step s c) = trace s"
  by (cases c)
    (simp_all add: start_listening close_def accept_def on_connection_def is_listening_def)

lemma run_stuck:
  "is_listening s \<Longrightarrow> priv_closed s \<Longrightarrow>
     is_listening (run s cs) \<and> priv_closed (run s cs) \<and> trace (run s cs) = trace s"
  unfolding run_def
  by (induction cs arbitrary: s) (simp_all add: step_stuck)

text \<open>Without a \<^verbatim>\<open>close\<close>, a listening server keeps its listener and its stored port.\<close>

lemma step_no_close:
  "is_listening s \<Longrightarrow> \<not> is_Close c \<Longrightarrow>
     is_listening (step s c) \<and> httpServer (step s c) = httpServer s \<and> port (step s c) = port s"
  by (cases c) (simp_all add: start_listening accept_def on_connection_def is_listening_def)

lemma run_no_close:
  "is_listening s \<Longrightarrow> list_all (\<lambda>c. \<not> is_Close c) cs \<Longrightarrow>
     is_listening (run s cs) \<and> httpServer (run s cs) = httpServer s \<and> port (run s cs) = port s"
  unfolding run_def
  by (induction cs arbitrary: s) (simp_all add: step_no_close)

lemma accepts_connections:
  "is_listening s \<Longrightarrow> connections (run s (map Accept cs)) = connections s @ cs"
  unfolding run_def
  by (induction cs arbitrary: s) (simp_all add: accept_def on_connection_def is_listening_def)

text \<open>The conversion to a boolean on the doubles 0, -0, NaN, 1 and infinity.\<close>

lemma truthy_examples:
  "\<not> truthy (JNum 0)" "\<not> truthy (JNum 0x8000000000000000)" "\<not> truthy (JNum 0x7FF8000000000000)"
  "truthy (JNum 0x3FF0000000000000)" "truthy (JNum 0x7FF0000000000000)"
  by (simp_all add: is_zero_def is_nan_def)

text \<open>
  The first restart of a server that listens with its flag unset goes through: \<^verbatim>\<open>close\<close>
  resolves, and a \<^verbatim>\<open>start\<close> whose bind succeeds resolves with the listener active.
\<close>

lemma first_restart:
  assumes "is_listening s" and "\<not> closed s"
  shows "fst (close s None) = Inr ()
       \<and> fst (start (snd (close s None)) p (ListeningEvent (Some a))) = Inr ()
       \<and> is_listening (snd (start (snd (close s None)) p (ListeningEvent (Some a))))"
  using assms
  by (simp add: close_def closed_def http_close_def destroy_all_fields start_def is_listening_def
      Let_def split: option.splits)

section \<open>Restart\<close>

text \<open>
  C1: on every server on which \<^verbatim>\<open>close()\<close> has resolved, a following \<^verbatim>\<open>start()\<close> should
  succeed and leave the server listening. The code does not do that: \<^verbatim>\<open>start\<close> never
  clears \<^verbatim>\<open>_closed\<close>, so after one restart \<^verbatim>\<open>close()\<close> resolves at its first test without
  stopping the listener, and the \<^verbatim>\<open>start()\<close> that follows is refused with
  \<^verbatim>\<open>Server already started\<close>. Below, on a fresh instance: start, close, start, close all
  resolve, and the third start is rejected.
\<close>

theorem restart_twice_fails:
  "fst (close (snd (start new_server (Some 3000) (bound 3000))) None) = Inr () \<and>
   fst (start (snd (close (snd (start new_server (Some 3000) (bound 3000))) None))
          (Some 3000) (bound 3000)) = Inr () \<and>
   fst (close (snd (start (snd (close (snd (start new_server (Some 3000) (bound 3000))) None))
          (Some 3000) (bound 3000))) None) = Inr () \<and>
   fst (start (snd (close (snd (start (snd (close (snd (start new_server (Some 3000)
          (bound 3000))) None)) (Some 3000) (bound 3000))) None)) (Some 3000) (bound 3000))
     = Inl (McpServerError ''MCP Server: Server already started'' ''McpServerError'')"
  by (simp add: server_defs)

text \<open>
  C2: \<^verbatim>\<open>close()\<close> on a server whose \<^verbatim>\<open>closed\<close> getter is true resolves, whatever the
  transport would have answered, and returns the server as it was: no field changes and
  the log of effects gains no \<open>Destroy\<close> and no \<open>ServerClose\<close>.
\<close>

theorem close_idempotent: "closed s \<Longrightarrow> close s err = (Inr (), s)"
  by (simp add: close_def closed_def)

theorem close_idempotent_witness:
  "closed (snd (close (snd (start new_server None (bound 3000))) None)) \<and>
   close (snd (close (snd (start new_server None (bound 3000))) None)) (Some ''late'')
     = (Inr (), snd (close (snd (start new_server None (bound 3000))) None))"
proof -
  have h: "closed (snd (close (snd (start new_server None (bound 3000))) None))"
    by (simp add: server_defs)
  from close_idempotent [OF h] h show ?thesis by simp
qed

text \<open>
  C3: after a \<^verbatim>\<open>close()\<close> that resolved and a \<^verbatim>\<open>start()\<close> that resolved, the getter
  \<^verbatim>\<open>closed\<close> is still true; and after any further calls \<open>cs\<close> it is true, the listener
  is active, nothing has been destroyed or stopped since the restart, and \<^verbatim>\<open>close()\<close>
  resolves and returns the server as it was.
\<close>

theorem restart_leaves_closed:
  assumes "fst (close s e) = Inr ()"
    and "start (snd (close s e)) p out = (Inr (), s')"
  shows "closed s' \<and> closed (run s' cs) \<and> close (run s' cs) e' = (Inr (), run s' cs)
         \<and> is_listening (run s' cs) \<and> trace (run s' cs) = trace s'"
proof -
  have c: "priv_closed s'"
    using close_ok_closed [OF assms(1)] start_keeps_closed [of "snd (close s e)" p out] assms(2)
    by simp
  have l: "is_listening s'"
    using start_ok_listening [of "snd (close s e)" p out] assms(2) by simp
  from run_stuck [OF l c, of cs] c show ?thesis
    by (simp add: closed_def close_def)
qed

theorem restart_leaves_closed_witness:
  "fst (close (snd (start new_server None (bound 3000))) None) = Inr () \<and>
   start (snd (close (snd (start new_server None (bound 3000))) None)) (Some 4000) (bound 4000)
     = (Inr (), \<lparr>httpServer = Some \<lparr>listening = True, address = Some (AddressInfo 4000)\<rparr>,
          connections = [], priv_closed = True, port = 4000,
          trace = [Listen 3000, ServerClose, MarkClosed, Listen 4000]\<rparr>) \<and>
   close (run \<lparr>httpServer = Some \<lparr>listening = True, address = Some (AddressInfo 4000)\<rparr>,
          connections = [], priv_closed = True, port = 4000,
          trace = [Listen 3000, ServerClose, MarkClosed, Listen 4000]\<rparr> [Accept 5]) None
     = (Inr (), \<lparr>httpServer = Some \<lparr>listening = True, address = Some (AddressInfo 4000)\<rparr>,
          connections = [5], priv_closed = True, port = 4000,
          trace = [Listen 3000, ServerClose, MarkClosed, Listen 4000]\<rparr>)"
proof -
  have a: "fst (close (snd (start new_server None (bound 3000))) None) = Inr ()"
    by (simp add: server_defs)
  have b: "start (snd (close (snd (start new_server None (bound 3000))) None)) (Some 4000)
      (bound 4000)
     = (Inr (), \<lparr>httpServer = Some \<lparr>listening = True, address = Some (AddressInfo 4000)\<rparr>,
          connections = [], priv_closed = True, port = 4000,
          trace = [Listen 3000, ServerClose, MarkClosed, Listen 4000]\<rparr>)"
    by (simp add: server_defs)
  have r: "run \<lparr>httpServer = Some \<lparr>listening = True, address = Some (AddressInfo 4000)\<rparr>,
          connections = [], priv_closed = True, port = 4000,
          trace = [Listen 3000, ServerClose, MarkClosed, Listen 4000]\<rparr> [Accept 5]
        = \<lparr>httpServer = Some \<lparr>listening = True, address = Some (AddressInfo 4000)\<rparr>,
          connections = [5], priv_closed = True, port = 4000,
          trace = [Listen 3000, ServerClose, MarkClosed, Listen 4000]\<rparr>"
    by (simp add: run_def server_defs)
  from restart_leaves_closed [OF a b, of "[Accept 5]" None] a b r show ?thesis by simp
qed

section \<open>Shutdown\<close>

text \<open>
  The path of \<^verbatim>\<open>close()\<close> behind its two tests, taken when the server listens and
  \<^verbatim>\<open>_closed\<close> is unset: every tracked connection is destroyed, in the order tracked, then
  the listener is stopped; when the transport reports no error the flag is set, last, and
  the call resolves; when it reports an error \<open>m\<close> the call rejects with
  \<^verbatim>\<open>MCP Server: Failed to close server: m\<close> and the flag stays unset.
\<close>

lemma shutdown_path_order:
  assumes "is_listening s" and "\<not> closed s"
  shows "fst (close s None) = Inr ()
       \<and> trace (snd (close s None))
           = trace s @ map Destroy (connections s) @ [ServerClose, MarkClosed]
       \<and> closed (snd (close s None))
       \<and> fst (close s (Some m))
           = Inl (McpServerError (''MCP Server: Failed to close server: '' @ m) ''McpServerError'')
       \<and> trace (snd (close s (Some m))) = trace s @ map Destroy (connections s) @ [ServerClose]
       \<and> \<not> closed (snd (close s (Some m)))"
  using assms
  by (simp add: close_def closed_def http_close_def destroy_all_trace destroy_all_fields
      new_McpServerError_def)

lemma shutdown_path_example:
  "close (accept (accept (snd (start new_server None (bound 3000))) 1) 2) None
       = (Inr (), \<lparr>httpServer = Some \<lparr>listening = False, address = None\<rparr>,
            connections = [1, 2], priv_closed = True, port = 3000,
            trace = [Listen 3000, Destroy 1, Destroy 2, ServerClose, MarkClosed]\<rparr>)
   \<and> close (accept (accept (snd (start new_server None (bound 3000))) 1) 2) (Some ''EIO'')
       = (Inl (McpServerError ''MCP Server: Failed to close server: EIO'' ''McpServerError''),
          \<lparr>httpServer = Some \<lparr>listening = False, address = None\<rparr>,
            connections = [1, 2], priv_closed = False, port = 3000,
            trace = [Listen 3000, Destroy 1, Destroy 2, ServerClose]\<rparr>)"
  by (simp add: server_defs)

text \<open>
  C4: every \<^verbatim>\<open>close()\<close> on a listening server should destroy the tracked connections,
  then stop the listener, then mark the server closed, and fail when the listener cannot
  be stopped. The code does not do that on a server that has been restarted: \<^verbatim>\<open>_closed\<close>
  is still set from the earlier \<^verbatim>\<open>close()\<close>, so the call returns at its first test. On a
  fresh instance, after start, close, start and one accepted connection (socket 5), the
  server listens; \<^verbatim>\<open>close()\<close> then resolves, whatever the transport would have answered,
  with socket 5 not destroyed, the listener still active and nothing added to the log of
  effects.
\<close>

theorem close_skipped_after_restart:
  "accept (snd (start (snd (close (snd (start new_server None (bound 3000))) None)) None
       (bound 3000))) 5
     = \<lparr>httpServer = Some \<lparr>listening = True, address = Some (AddressInfo 3000)\<rparr>,
        connections = [5], priv_closed = True, port = 3000,
        trace = [Listen 3000, ServerClose, MarkClosed, Listen 3000]\<rparr>
   \<and> is_listening (accept (snd (start (snd (close (snd (start new_server None (bound 3000)))
        None)) None (bound 3000))) 5)
   \<and> close (accept (snd (start (snd (close (snd (start new_server None (bound 3000))) None))
        None (bound 3000))) 5) None
       = (Inr (), \<lparr>httpServer = Some \<lparr>listening = True, address = Some (AddressInfo 3000)\<rparr>,
            connections = [5], priv_closed = True, port = 3000,
            trace = [Listen 3000, ServerClose, MarkClosed, Listen 3000]\<rparr>)
   \<and> close (accept (snd (start (snd (close (snd (start new_server None (bound 3000))) None))
        None (bound 3000))) 5) (Some ''EIO'')
       = (Inr (), \<lparr>httpServer = Some \<lparr>listening = True, address = Some (AddressInfo 3000)\<rparr>,
            connections = [5], priv_closed = True, port = 3000,
            trace = [Listen 3000, ServerClose, MarkClosed, Listen 3000]\<rparr>)"
  by (simp add: server_defs)

section \<open>Starting twice\<close>

text \<open>
  C5: when the listener is active and any calls other than \<^verbatim>\<open>close\<close> follow, a further
  \<^verbatim>\<open>start()\<close> is rejected with \<^verbatim>\<open>MCP Server: Server already started\<close>, changes nothing,
  and \<^verbatim>\<open>getPort()\<close> returns what it returned before.
\<close>

theorem start_twice:
  assumes "is_listening s" and "list_all (\<lambda>c. \<not> is_Close c) cs"
  shows "start (run s cs) p out
           = (Inl (McpServerError ''MCP Server: Server already started'' ''McpServerError''),
              run s cs)
       \<and> getPort (snd (start (run s cs) p out)) = getPort s"
proof -
  from run_no_close [OF assms]
  have l: "is_listening (run s cs)" and h: "httpServer (run s cs) = httpServer s"
    and q: "port (run s cs) = port s"
    by simp_all
  from h q have "getPort (run s cs) = getPort s"
    by (simp add: getPort_def getAddress_def split: option.splits address.splits)
  with start_listening [OF l] show ?thesis by simp
qed

theorem start_twice_witness:
  "is_listening (snd (start new_server (Some 4000) (bound 4000)))
   \<and> list_all (\<lambda>c. \<not> is_Close c) [Accept 1]
   \<and> fst (start (run (snd (start new_server (Some 4000) (bound 4000))) [Accept 1]) (Some 5000)
        (bound 5000))
       = Inl (McpServerError ''MCP Server: Server already started'' ''McpServerError'')
   \<and> getPort (snd (start (run (snd (start new_server (Some 4000) (bound 4000))) [Accept 1])
        (Some 5000) (bound 5000))) = 4000"
proof -
  have l: "is_listening (snd (start new_server (Some 4000) (bound 4000)))"
    by (simp add: server_defs)
  have n: "list_all (\<lambda>c. \<not> is_Close c) [Accept 1]"
    by simp
  have g: "getPort (snd (start new_server (Some 4000) (bound 4000))) = 4000"
    by (simp add: server_defs)
  note t = start_twice [OF l n, of "Some 5000" "bound 5000"]
  from t have a: "fst (start (run (snd (start new_server (Some 4000) (bound 4000))) [Accept 1])
      (Some 5000) (bound 5000))
       = Inl (McpServerError ''MCP Server: Server already started'' ''McpServerError'')"
    by simp
  from t [THEN conjunct2] g
  have b: "getPort (snd (start (run (snd (start new_server (Some 4000) (bound 4000)))
      [Accept 1]) (Some 5000) (bound 5000))) = 4000"
    by (rule trans)
  from l n a b show ?thesis by (intro conjI)
qed

section \<open>Tool dispatch\<close>

text \<open>
  C6: a \<^verbatim>\<open>call_tool\<close> request for \<^verbatim>\<open>load_chat_session\<close> whose arguments have no
  \<^verbatim>\<open>message\<close> makes exactly one call to the chat opener, with the string
  \<^verbatim>\<open>Hello world\<close>, which is the default that the catalog declares for \<^verbatim>\<open>message\<close>.
\<close>

theorem default_message:
  assumes "get_message args = None"
  shows "fst (call_tool loadChatSession conv ''load_chat_session'' args) = [JStr ''Hello world'']
       \<and> map tool_name list_tools = [''load_chat_session'']
       \<and> map (\<lambda>t. map_option prop_default (map_of (properties (inputSchema t)) ''message''))
            list_tools = [Some (JStr ''Hello world'')]"
  using assms
  by (simp add: call_tool_def list_tools_def Let_def split: option.splits sum.splits)

theorem default_message_witness:
  "get_message (Some (JObj [(''other'', JNull)])) = None
   \<and> call_tool (\<lambda>v. None) (\<lambda>v. Inl ''TypeError'') ''load_chat_session''
        (Some (JObj [(''other'', JNull)]))
       = ([JStr ''Hello world''],
          Inr [ContentItem ''text''
                 (''Chat session opened with message: '' @ [CHR 0x22] @ ''Hello world''
                    @ [CHR 0x22])])"
proof -
  have h: "get_message (Some (JObj [(''other'', JNull)])) = None"
    by simp
  from default_message [OF h, of "\<lambda>v. None" "\<lambda>v. Inl ''TypeError''"] h show ?thesis
    by (simp add: call_tool_def interpolate_def Let_def)
qed

text \<open>
  C7: a \<^verbatim>\<open>call_tool\<close> request whose name is not in the catalog throws a server error
  whose message ends with that name, and makes no call to the chat opener.
\<close>

theorem unknown_tool:
  assumes "name \<notin> set (map tool_name list_tools)"
  shows "call_tool loadChatSession conv name args
           = ([], Inl (McpServerError (''MCP Server: Unknown tool: '' @ name) ''McpServerError''))"
  using assms
  by (simp add: call_tool_def list_tools_def new_McpServerError_def)

theorem unknown_tool_witness:
  "''save_chat'' \<notin> set (map tool_name list_tools)
   \<and> call_tool (\<lambda>v. None) (\<lambda>v. Inl ''TypeError'') ''save_chat'' (Some (JObj []))
       = ([], Inl (McpServerError ''MCP Server: Unknown tool: save_chat'' ''McpServerError''))"
proof -
  have h: "''save_chat'' \<notin> set (map tool_name list_tools)"
    by (simp add: list_tools_def)
  from unknown_tool [OF h, of "\<lambda>v. None" "\<lambda>v. Inl ''TypeError''" "Some (JObj [])"] h
  show ?thesis by simp
qed

text \<open>
  C10: a \<^verbatim>\<open>call_tool\<close> request for \<^verbatim>\<open>load_chat_session\<close> whose \<^verbatim>\<open>message\<close> is present but
  converts to false (the empty string, \<^verbatim>\<open>null\<close>, \<^verbatim>\<open>false\<close>, a zero) calls the chat opener
  with \<^verbatim>\<open>Hello world\<close>, not with the value supplied.
\<close>

theorem falsy_message_defaulted:
  assumes "get_message args = Some v" and "\<not> truthy v"
  shows "fst (call_tool loadChatSession conv ''load_chat_session'' args) = [JStr ''Hello world'']"
  using assms
  by (simp add: call_tool_def Let_def split: option.splits sum.splits)

theorem falsy_message_defaulted_witness:
  "get_message (Some (JObj [(''message'', JStr [])])) = Some (JStr [])
   \<and> \<not> truthy (JStr [])
   \<and> fst (call_tool (\<lambda>v. None) (\<lambda>v. Inl ''TypeError'') ''load_chat_session''
        (Some (JObj [(''message'', JStr [])]))) = [JStr ''Hello world'']"
proof -
  have g: "get_message (Some (JObj [(''message'', JStr [])])) = Some (JStr [])"
    by simp
  have t: "\<not> truthy (JStr [])"
    by simp
  from falsy_message_defaulted [OF g t, of "\<lambda>v. None" "\<lambda>v. Inl ''TypeError''"] g t
  show ?thesis by simp
qed

section \<open>Tracked connections\<close>

text \<open>
  The tracked list is not reset by a restart. On a fresh instance: start, one connection
  (socket 7) is accepted, close, start. Both \<^verbatim>\<open>close\<close> and the second \<^verbatim>\<open>start\<close>
  resolve; no connection has been accepted under the new listener, and the list still
  holds socket 7, which \<^verbatim>\<open>close\<close> had destroyed.
\<close>

theorem connections_carried_over:
  "fst (close (accept (snd (start new_server None (bound 3000))) 7) None) = Inr () \<and>
   start (snd (close (accept (snd (start new_server None (bound 3000))) 7) None)) None
       (bound 3000)
     = (Inr (), \<lparr>httpServer = Some \<lparr>listening = True, address = Some (AddressInfo 3000)\<rparr>,
          connections = [7], priv_closed = True, port = 3000,
          trace = [Listen 3000, Destroy 7, ServerClose, MarkClosed, Listen 3000]\<rparr>)"
  by (simp add: server_defs)

text \<open>
  C8, as the code has it: the tracked list belongs to the server object and is never
  cleared. After \<^verbatim>\<open>close()\<close> and a \<^verbatim>\<open>start()\<close> that resolved, it holds every connection
  it held before the \<^verbatim>\<open>close()\<close>, followed by those accepted under the new listener, in
  order of acceptance.
\<close>

theorem connections_never_reset:
  assumes "fst (start (snd (close s e)) p out) = Inr ()"
  shows "connections (run (snd (start (snd (close s e)) p out)) (map Accept cs))
           = connections s @ cs"
  using accepts_connections [OF start_ok_listening [OF assms], of cs]
  by (simp add: start_connections close_connections)

theorem connections_never_reset_witness:
  "fst (start (snd (close (accept (snd (start new_server None (bound 3000))) 7) None)) None
          (bound 3000)) = Inr () \<and>
   connections (run (snd (start (snd (close (accept (snd (start new_server None (bound 3000))) 7)
          None)) None (bound 3000))) (map Accept [8, 9])) = [7, 8, 9]"
proof -
  have h: "fst (start (snd (close (accept (snd (start new_server None (bound 3000))) 7) None))
          None (bound 3000)) = Inr ()"
    by (simp add: server_defs)
  have c: "connections (accept (snd (start new_server None (bound 3000))) 7) = [7]"
    by (simp add: server_defs)
  from connections_never_reset [OF h, of "[8, 9]"] h c show ?thesis by simp
qed

section \<open>Port 0\<close>

text \<open>
  C9: \<^verbatim>\<open>start(0)\<close> should bind an ephemeral port. The code does not pass 0 on:
  \<^verbatim>\<open>port || this.port\<close> replaces it by the stored port, so on a fresh instance the
  transport is asked for port 3000, whatever it answers, and after a successful bind
  \<^verbatim>\<open>getPort()\<close> returns 3000.
\<close>

theorem start_port_zero:
  "trace (snd (start new_server (Some 0) out)) = [Listen 3000]
   \<and> port (snd (start new_server (Some 0) out)) = 3000
   \<and> getPort (snd (start new_server (Some 0) (bound 3000))) = 3000"
  by (simp add: server_defs Let_def split: listen_outcome.splits option.splits)

end
